theory Spec2Isabelle
  imports Complex_Main
begin

section \<open>Data model (receipt\_models.py)\<close>

text \<open>
  Python's \<open>datetime\<close> (naive, as \<open>strptime\<close> and \<open>datetime.now\<close> produce it) is a
  record of its calendar and clock fields. Python's unbounded integers are \<open>int\<close>.
  Characters are 8-bit: strings are restricted to the code points below 256.

  Amounts are Python floats (IEEE binary64) in the source. An amount field holds a
  rational that denotes the double nearest to it, as a decimal literal does in Python:
  \<open>4567 / 100\<close> stands for the float \<open>45.67\<close>. Where the source computes with
  amounts, in \<open>_is_duplicate_receipt\<close>, the model rounds as binary64 does
  (\<open>to_double\<close> below).
\<close>

record datetime =
  year :: nat
  month :: nat
  day :: nat
  hour :: nat
  minute :: nat
  second :: nat
  microsecond :: nat


text \<open>The order of naive datetimes is the lexicographic order of their fields.\<close>

definition dt_key :: "datetime \<Rightarrow> nat list" where
  "dt_key d = [year d, month d, day d, hour d, minute d, second d, microsecond d]"

fun lex_less :: "nat list \<Rightarrow> nat list \<Rightarrow> bool" where
  "lex_less [] [] = False"
| "lex_less [] (y # ys) = True"
| "lex_less (x # xs) [] = False"
| "lex_less (x # xs) (y # ys) = (x < y \<or> (x = y \<and> lex_less xs ys))"

definition dt_less :: "datetime \<Rightarrow> datetime \<Rightarrow> bool" where
  "dt_less a b = lex_less (dt_key a) (dt_key b)"

text \<open>
  The \<open>Receipt\<close> dataclass. The optional fields that no operation below reads
  (currency, receipt number, member number, items, tax, subtotal, PDF path, raw data)
  are left out.
\<close>

record receipt =
  receipt_id :: string
  date :: datetime
  location :: string
  total_amount :: rat

record receipt_batch =
  receipts :: "receipt list"
  total_count :: int
  scraped_count :: int
  failed_count :: int
  duplicate_count :: int
  date_range_start :: "datetime option"
  date_range_end :: "datetime option"

text \<open>\<open>ReceiptBatch()\<close> with the dataclass defaults.\<close>

definition new_batch :: receipt_batch where
  "new_batch = \<lparr> receipts = [], total_count = 0, scraped_count = 0, failed_count = 0,
     duplicate_count = 0, date_range_start = None, date_range_end = None \<rparr>"

text \<open>
  \<open>ReceiptBatch.add_receipt\<close>. A datetime object is always truthy, so
  \<open>not self.date_range_start\<close> holds exactly when the field is \<open>None\<close>.
\<close>

definition update_range :: "receipt_batch \<Rightarrow> receipt \<Rightarrow> receipt_batch" where
  "update_range b r =
     (let b1 = (case date_range_start b of
                  None \<Rightarrow> b\<lparr>date_range_start := Some (date r)\<rparr>
                | Some s \<Rightarrow> if dt_less (date r) s then b\<lparr>date_range_start := Some (date r)\<rparr> else b)
      in (case date_range_end b1 of
            None \<Rightarrow> b1\<lparr>date_range_end := Some (date r)\<rparr>
          | Some e \<Rightarrow> if dt_less e (date r) then b1\<lparr>date_range_end := Some (date r)\<rparr> else b1))"

definition add_receipt :: "receipt_batch \<Rightarrow> receipt \<Rightarrow> bool \<Rightarrow> receipt_batch" where
  "add_receipt b r is_duplicate =
     (let b1 = (if \<not> is_duplicate
                then b\<lparr>receipts := receipts b @ [r], scraped_count := scraped_count b + 1\<rparr>
                else b\<lparr>duplicate_count := duplicate_count b + 1\<rparr>);
          b2 = b1\<lparr>total_count := total_count b1 + 1\<rparr>
      in update_range b2 r)"

definition add_failed :: "receipt_batch \<Rightarrow> receipt_batch" where
  "add_failed b = b\<lparr>failed_count := failed_count b + 1, total_count := total_count b + 1\<rparr>"

text \<open>A sequence of calls on one batch.\<close>

datatype batch_call = AddReceipt receipt bool | AddFailed

fun apply_call :: "receipt_batch \<Rightarrow> batch_call \<Rightarrow> receipt_batch" where
  "apply_call b (AddReceipt r d) = add_receipt b r d"
| "apply_call b AddFailed = add_failed b"

fun apply_calls :: "receipt_batch \<Rightarrow> batch_call list \<Rightarrow> receipt_batch" where
  "apply_calls b [] = b"
| "apply_calls b (c # cs) = apply_calls (apply_call b c) cs"

definition counters_consistent :: "receipt_batch \<Rightarrow> bool" where
  "counters_consistent b \<longleftrightarrow>
     total_count b = scraped_count b + duplicate_count b + failed_count b \<and>
     scraped_count b = int (length (receipts b))"

section \<open>Deduplication (receipt\_scraper.py)\<close>

text \<open>
  \<open>ReceiptScraper._is_duplicate_receipt\<close>: the loop over the accepted receipts of the
  batch, returning at the first member that agrees with the candidate.
\<close>











section \<open>Regular expressions as the source uses them\<close>

text \<open>
  The parsers are written with Python's \<open>re\<close> module. The fragment they use is embedded
  as a datatype with a backtracking matcher: \<open>rmatch r bol s\<close> lists, in Python's
  order of preference (greedy repetition, leftmost alternative first), every way \<open>r\<close> can
  match a prefix of \<open>s\<close>, as the captured groups and the unconsumed rest. \<open>bol\<close> says
  whether \<open>s\<close> starts at the beginning of the subject string. Every pattern of the
  source is compiled with \<open>re.IGNORECASE\<close>, which is built into the character test.
\<close>

definition is_digit :: "char \<Rightarrow> bool" where
  "is_digit c \<longleftrightarrow> c \<in> set ''0123456789''"

text \<open>
  Whitespace of \<open>str.split\<close>, \<open>str.strip\<close> and \<open>\s\<close> among the code points below 256.
  (Among these only the ASCII letters have two cases that matter for matching, and only
  \<open>0\<close> to \<open>9\<close> are decimal digits.)
\<close>

definition is_space :: "char \<Rightarrow> bool" where
  "is_space c \<longleftrightarrow> c \<in> set [CHR '' '', CHR 0x09, CHR 0x0A, CHR 0x0B, CHR 0x0C, CHR 0x0D,
                          CHR 0x1C, CHR 0x1D, CHR 0x1E, CHR 0x1F, CHR 0x85, CHR 0xA0]"

definition lower_chars :: string where
  "lower_chars = ''abcdefghijklmnopqrstuvwxyz''"

definition upper_chars :: string where
  "upper_chars = ''ABCDEFGHIJKLMNOPQRSTUVWXYZ''"

definition to_lower :: "char \<Rightarrow> char" where
  "to_lower c = (case map_of (zip upper_chars lower_chars) c of Some l \<Rightarrow> l | None \<Rightarrow> c)"

definition to_upper :: "char \<Rightarrow> char" where
  "to_upper c = (case map_of (zip lower_chars upper_chars) c of Some u \<Rightarrow> u | None \<Rightarrow> c)"

datatype citem = CChar char | CDigit | CSpace | CLower

fun item_has :: "citem \<Rightarrow> char \<Rightarrow> bool" where
  "item_has (CChar x) c = (c = x)"
| "item_has CDigit c = is_digit c"
| "item_has CSpace c = is_space c"
| "item_has CLower c = (c \<in> set lower_chars)"

text \<open>Under \<open>IGNORECASE\<close> a character belongs to a set when either of its cases does.\<close>

definition in_class :: "bool \<Rightarrow> citem list \<Rightarrow> char \<Rightarrow> bool" where
  "in_class negated items c =
     (let hit = (\<exists>i \<in> set items. item_has i (to_lower c) \<or> item_has i (to_upper c))
      in if negated then \<not> hit else hit)"

datatype rx =
    Class bool "citem list"
  | Eps
  | Bol
  | Eol
  | Seq rx rx
  | Alt rx rx
  | Star rx
  | Group nat rx

type_synonym captures = "(nat \<times> string) list"

fun rmatch :: "rx \<Rightarrow> bool \<Rightarrow> string \<Rightarrow> (captures \<times> string) list" where
  "rmatch (Class negated items) bol s =
     (case s of [] \<Rightarrow> [] | c # t \<Rightarrow> if in_class negated items c then [([], t)] else [])"
| "rmatch Eps bol s = [([], s)]"
| "rmatch Bol bol s = (if bol then [([], s)] else [])"
| "rmatch Eol bol s = (if s = [] \<or> s = [CHR 0x0A] then [([], s)] else [])"
| "rmatch (Seq r1 r2) bol s =
     concat (map (\<lambda>(c1, s1).
                    map (\<lambda>(c2, s2). (c2 @ c1, s2))
                        (rmatch r2 (bol \<and> length s1 = length s) s1))
                 (rmatch r1 bol s))"
| "rmatch (Alt r1 r2) bol s = rmatch r1 bol s @ rmatch r2 bol s"
| "rmatch (Star r) bol s =
     concat (map (\<lambda>(c1, s1).
                    if length s1 < length s
                    then map (\<lambda>(c2, s2). (c2 @ c1, s2)) (rmatch (Star r) False s1)
                    else [])
                 (rmatch r bol s))
     @ [([], s)]"
| "rmatch (Group n r) bol s =
     map (\<lambda>(c, s1). ((n, take (length s - length s1) s) # c, s1)) (rmatch r bol s)"

text \<open>Pattern syntax: a literal string, \<open>r+\<close>, \<open>r?\<close>, \<open>r{n}\<close>, \<open>\d\<close>, \<open>\s\<close>.\<close>

definition lit :: "char \<Rightarrow> rx" where
  "lit c = Class False [CChar c]"

fun lits :: "string \<Rightarrow> rx" where
  "lits [] = Eps"
| "lits [c] = lit c"
| "lits (c # cs) = Seq (lit c) (lits cs)"

fun seqs :: "rx list \<Rightarrow> rx" where
  "seqs [] = Eps"
| "seqs [r] = r"
| "seqs (r # rs) = Seq r (seqs rs)"

fun alts :: "rx list \<Rightarrow> rx" where
  "alts [] = Class False []"
| "alts [r] = r"
| "alts (r # rs) = Alt r (alts rs)"

definition rx_plus :: "rx \<Rightarrow> rx" where
  "rx_plus r = Seq r (Star r)"

definition rx_opt :: "rx \<Rightarrow> rx" where
  "rx_opt r = Alt r Eps"

definition rx_digit :: rx where
  "rx_digit = Class False [CDigit]"

definition rx_space :: rx where
  "rx_space = Class False [CSpace]"

text \<open>\<open>\d{1,2}\<close>, \<open>\d{2}\<close> and \<open>\d{4}\<close>.\<close>

definition digits_1_2 :: rx where
  "digits_1_2 = Seq rx_digit (rx_opt rx_digit)"

definition digits_2 :: rx where
  "digits_2 = Seq rx_digit rx_digit"

definition digits_4 :: rx where
  "digits_4 = seqs [rx_digit, rx_digit, rx_digit, rx_digit]"

text \<open>
  \<open>re.findall\<close>: the non-overlapping matches from left to right. For a pattern with one
  group the list holds what group 1 captured, otherwise the whole match. (In the patterns
  of the source group 1, where there is one, takes part in every match.)
\<close>

definition match_value :: "captures \<Rightarrow> string \<Rightarrow> string" where
  "match_value caps whole = (case map_of caps 1 of Some g \<Rightarrow> g | None \<Rightarrow> whole)"

function findall_from :: "rx \<Rightarrow> bool \<Rightarrow> string \<Rightarrow> string list" where
  "findall_from r bol s =
     (case rmatch r bol s of
        [] \<Rightarrow> (case s of [] \<Rightarrow> [] | c # t \<Rightarrow> findall_from r False t)
      | (caps, rest) # other \<Rightarrow>
          match_value caps (take (length s - length rest) s) #
          (if length rest < length s then findall_from r False rest
           else (case s of [] \<Rightarrow> [] | c # t \<Rightarrow> findall_from r False t)))"
  by pat_completeness auto
termination
  by (relation "measure (\<lambda>(r, bol, s). length s)") auto

declare findall_from.simps [simp del]

definition findall :: "rx \<Rightarrow> string \<Rightarrow> string list" where
  "findall r s = findall_from r True s"

text \<open>
  \<open>re.sub(pattern, '', s)\<close>: every non-overlapping match, from left to right, is
  removed. An empty match removes nothing.
\<close>

function sub_from :: "rx \<Rightarrow> bool \<Rightarrow> string \<Rightarrow> string" where
  "sub_from r bol s =
     (case rmatch r bol s of
        [] \<Rightarrow> (case s of [] \<Rightarrow> [] | c # t \<Rightarrow> c # sub_from r False t)
      | (caps, rest) # other \<Rightarrow>
          (if length rest < length s then sub_from r False rest
           else (case s of [] \<Rightarrow> [] | c # t \<Rightarrow> c # sub_from r False t)))"
  by pat_completeness auto
termination
  by (relation "measure (\<lambda>(r, bol, s). length s)") auto

declare sub_from.simps [simp del]

definition re_sub_empty :: "rx \<Rightarrow> string \<Rightarrow> string" where
  "re_sub_empty r s = sub_from r True s"


section \<open>String helpers of Python\<close>

text \<open>\<open>s.split()\<close>: the maximal runs of non-whitespace characters.\<close>

fun split_acc :: "string \<Rightarrow> string \<Rightarrow> string list" where
  "split_acc word [] = (if word = [] then [] else [word])"
| "split_acc word (c # cs) =
     (if is_space c then (if word = [] then split_acc [] cs else word # split_acc [] cs)
      else split_acc (word @ [c]) cs)"

definition split_ws :: "string \<Rightarrow> string list" where
  "split_ws s = split_acc [] s"

text \<open>\<open>' '.join(words)\<close>.\<close>

fun join_space :: "string list \<Rightarrow> string" where
  "join_space [] = []"
| "join_space [w] = w"
| "join_space (w # ws) = w @ '' '' @ join_space ws"

text \<open>\<open>s.strip()\<close>.\<close>

definition strip :: "string \<Rightarrow> string" where
  "strip s = rev (dropWhile is_space (rev (dropWhile is_space s)))"

definition digit_val :: "char \<Rightarrow> nat" where
  "digit_val c = (case map_of (zip ''0123456789'' [0, 1, 2, 3, 4, 5, 6, 7, 8, 9]) c of
                    Some v \<Rightarrow> v | None \<Rightarrow> 0)"

text \<open>\<open>int(s)\<close> on a string of decimal digits.\<close>

definition nat_of_digits :: "string \<Rightarrow> nat" where
  "nat_of_digits s = foldl (\<lambda>n c. 10 * n + digit_val c) 0 s"

text \<open>\<open>str(n)\<close> for a natural number.\<close>

function str_nat :: "nat \<Rightarrow> string" where
  "str_nat n = (if n < 10 then [''0123456789'' ! n]
                else str_nat (n div 10) @ [''0123456789'' ! (n mod 10)])"
  by pat_completeness auto
termination
  by (relation "measure id") auto

declare str_nat.simps [simp del]

text \<open>
  \<open>float(s)\<close> on the strings the amount patterns can capture: decimal digits with at
  most one point. Every other string is reported as a \<open>ValueError\<close> (\<open>None\<close>); Python
  accepts further spellings (signs, exponents, \<open>inf\<close>) that no pattern captures.
\<close>

definition float_of_str :: "string \<Rightarrow> rat option" where
  "float_of_str s =
     (let ip = takeWhile (\<lambda>c. c \<noteq> CHR ''.'') s;
          rest = dropWhile (\<lambda>c. c \<noteq> CHR ''.'') s
      in case rest of
           [] \<Rightarrow> if ip \<noteq> [] \<and> list_all is_digit ip
                 then Some (of_nat (nat_of_digits ip)) else None
         | dot # fp \<Rightarrow>
             if list_all is_digit ip \<and> list_all is_digit fp \<and> (ip \<noteq> [] \<or> fp \<noteq> [])
             then Some (of_nat (nat_of_digits ip) + of_nat (nat_of_digits fp) / 10 ^ length fp)
             else None)"

section \<open>Location normalization (receipt\_models.py)\<close>

text \<open>
  \<open>Receipt._clean_location\<close>, with the two patterns
  \<^verbatim>\<open>^(Costco\s*Wholesale\s*|Costco\s*)\<close> and \<^verbatim>\<open>\s*(Warehouse|Store)\s*$\<close>.
\<close>

definition costco_prefix :: rx where
  "costco_prefix =
     Seq Bol (Group 1 (Alt (seqs [lits ''Costco'', Star rx_space, lits ''Wholesale'', Star rx_space])
                           (Seq (lits ''Costco'') (Star rx_space))))"

definition warehouse_suffix :: rx where
  "warehouse_suffix =
     seqs [Star rx_space, Group 1 (Alt (lits ''Warehouse'') (lits ''Store'')), Star rx_space, Eol]"

definition clean_location :: "string \<Rightarrow> string" where
  "clean_location loc =
     (let l1 = join_space (split_ws loc);
          l2 = re_sub_empty costco_prefix l1;
          l3 = re_sub_empty warehouse_suffix l2
      in strip l3)"

text \<open>
  The dataclass constructor with \<open>__post_init__\<close>: a non-empty location is cleaned, an
  empty one is kept. (The amount is a float here, never a string.)
\<close>

definition Receipt :: "string \<Rightarrow> datetime \<Rightarrow> string \<Rightarrow> rat \<Rightarrow> receipt" where
  "Receipt rid d loc amt =
     \<lparr> receipt_id = rid, date = d,
       location = (if loc \<noteq> [] then clean_location loc else loc),
       total_amount = amt \<rparr>"

section \<open>\<open>datetime.strptime\<close> for the formats the scraper uses\<close>

text \<open>
  The standard library turns a format into a regular expression with one named group per
  directive, matches it case-insensitively at the start of the string, and raises
  \<open>ValueError\<close> when there is no match, when the match leaves characters over, or when
  the fields do not form a date. A run of whitespace in the format becomes \<open>\s+\<close>.
  The model covers the directives \<open>%m %d %Y %y %B %b\<close> and returns \<open>None\<close> for a
  \<open>ValueError\<close>.
\<close>

datatype fmt_item = Dir_m | Dir_d | Dir_Y | Dir_y | Dir_B | Dir_b | FChar char | FSpace

definition month_names :: "string list" where
  "month_names = [''january'', ''february'', ''march'', ''april'', ''may'', ''june'', ''july'',
                  ''august'', ''september'', ''october'', ''november'', ''december'']"

definition month_abbrs :: "string list" where
  "month_abbrs = [''jan'', ''feb'', ''mar'', ''apr'', ''may'', ''jun'', ''jul'', ''aug'', ''sep'',
                  ''oct'', ''nov'', ''dec'']"

text \<open>The alternation of the month names is ordered by decreasing length (a stable sort).\<close>

definition month_names_by_length :: "string list" where
  "month_names_by_length = [''september'', ''february'', ''november'', ''december'', ''january'',
                            ''october'', ''august'', ''march'', ''april'', ''june'', ''july'', ''may'']"

definition nonzero_digit :: rx where
  "nonzero_digit = Class False (map CChar ''123456789'')"

text \<open>Groups 2 to 7 stand for the named groups \<open>m d Y y B b\<close>.\<close>

fun fmt_rx :: "fmt_item \<Rightarrow> rx" where
  "fmt_rx Dir_m = Group 2 (alts [Seq (lit CHR ''1'') (Class False (map CChar ''012'')),
                                Seq (lit CHR ''0'') nonzero_digit,
                                nonzero_digit])"
| "fmt_rx Dir_d = Group 3 (alts [Seq (lit CHR ''3'') (Class False (map CChar ''01'')),
                                Seq (Class False (map CChar ''12'')) rx_digit,
                                Seq (lit CHR ''0'') nonzero_digit,
                                nonzero_digit,
                                Seq (lit CHR '' '') nonzero_digit])"
| "fmt_rx Dir_Y = Group 4 digits_4"
| "fmt_rx Dir_y = Group 5 digits_2"
| "fmt_rx Dir_B = Group 6 (alts (map lits month_names_by_length))"
| "fmt_rx Dir_b = Group 7 (alts (map lits month_abbrs))"
| "fmt_rx (FChar c) = lit c"
| "fmt_rx FSpace = rx_plus rx_space"

fun index_of :: "'a list \<Rightarrow> 'a \<Rightarrow> nat" where
  "index_of [] x = 0"
| "index_of (y # ys) x = (if x = y then 0 else Suc (index_of ys x))"

definition is_leap :: "nat \<Rightarrow> bool" where
  "is_leap y \<longleftrightarrow> y mod 4 = 0 \<and> (y mod 100 \<noteq> 0 \<or> y mod 400 = 0)"

definition days_in_month :: "nat \<Rightarrow> nat \<Rightarrow> nat" where
  "days_in_month y m =
     (if m = 2 then (if is_leap y then 29 else 28)
      else if m \<in> set [4, 6, 9, 11] then 30 else 31)"

text \<open>What the \<open>date\<close> constructor accepts: \<open>MINYEAR = 1\<close>, \<open>MAXYEAR = 9999\<close>.\<close>

definition valid_date :: "nat \<Rightarrow> nat \<Rightarrow> nat \<Rightarrow> bool" where
  "valid_date y m d \<longleftrightarrow>
     1 \<le> y \<and> y \<le> 9999 \<and> 1 \<le> m \<and> m \<le> 12 \<and> 1 \<le> d \<and> d \<le> days_in_month y m"

definition group_year :: "captures \<Rightarrow> nat" where
  "group_year caps =
     (case map_of caps 4 of
        Some y \<Rightarrow> nat_of_digits y
      | None \<Rightarrow>
          (case map_of caps 5 of
             Some y \<Rightarrow> (let v = nat_of_digits y in if v \<le> 68 then 2000 + v else 1900 + v)
           | None \<Rightarrow> 1900))"

definition group_month :: "captures \<Rightarrow> nat" where
  "group_month caps =
     (case map_of caps 2 of
        Some m \<Rightarrow> nat_of_digits m
      | None \<Rightarrow>
          (case map_of caps 6 of
             Some name \<Rightarrow> Suc (index_of month_names (map to_lower name))
           | None \<Rightarrow>
               (case map_of caps 7 of
                  Some name \<Rightarrow> Suc (index_of month_abbrs (map to_lower name))
                | None \<Rightarrow> 1)))"

definition group_day :: "captures \<Rightarrow> nat" where
  "group_day caps =
     (case map_of caps 3 of
        Some d \<Rightarrow> nat_of_digits (dropWhile is_space d)
      | None \<Rightarrow> 1)"

definition strptime :: "string \<Rightarrow> fmt_item list \<Rightarrow> datetime option" where
  "strptime s fmt =
     (case rmatch (seqs (map fmt_rx fmt)) True s of
        [] \<Rightarrow> None
      | (caps, rest) # other \<Rightarrow>
          if rest \<noteq> [] then None
          else (let y = group_year caps; m = group_month caps; d = group_day caps
                in if valid_date y m d
                   then Some \<lparr> year = y, month = m, day = d, hour = 0, minute = 0,
                               second = 0, microsecond = 0 \<rparr>
                   else None))"

section \<open>Field parsers (receipt\_scraper.py)\<close>

text \<open>
  \<open>ReceiptScraper._parse_date\<close>. The five patterns, in the order of the source:
  \<^verbatim>\<open>(\d{1,2}/\d{1,2}/\d{4})\<close>, \<^verbatim>\<open>(\d{1,2}-\d{1,2}-\d{4})\<close>, \<^verbatim>\<open>(\d{4}-\d{1,2}-\d{1,2})\<close>,
  \<^verbatim>\<open>(\d{1,2}/\d{1,2}/\d{2})\<close> and
  \<^verbatim>\<open>(Jan|Feb|Mar|Apr|May|Jun|Jul|Aug|Sep|Oct|Nov|Dec)[a-z]*\s+\d{1,2},?\s+\d{4}\<close>.
  In the last one the group encloses the month alternation only.
\<close>

definition date_patterns :: "rx list" where
  "date_patterns =
     [Group 1 (seqs [digits_1_2, lit CHR ''/'', digits_1_2, lit CHR ''/'', digits_4]),
      Group 1 (seqs [digits_1_2, lit CHR ''-'', digits_1_2, lit CHR ''-'', digits_4]),
      Group 1 (seqs [digits_4, lit CHR ''-'', digits_1_2, lit CHR ''-'', digits_1_2]),
      Group 1 (seqs [digits_1_2, lit CHR ''/'', digits_1_2, lit CHR ''/'', digits_2]),
      seqs [Group 1 (alts (map lits [''Jan'', ''Feb'', ''Mar'', ''Apr'', ''May'', ''Jun'', ''Jul'',
                                     ''Aug'', ''Sep'', ''Oct'', ''Nov'', ''Dec''])),
            Star (Class False [CLower]), rx_plus rx_space, digits_1_2,
            rx_opt (lit CHR '',''), rx_plus rx_space, digits_4]]"

text \<open>
  The formats \<open>%m/%d/%Y\<close>, \<open>%m-%d-%Y\<close>, \<open>%Y-%m-%d\<close>, \<open>%m/%d/%y\<close>, \<open>%B %d, %Y\<close>,
  \<open>%b %d, %Y\<close>, \<open>%B %d %Y\<close>, \<open>%b %d %Y\<close>.
\<close>

definition date_formats :: "fmt_item list list" where
  "date_formats =
     [[Dir_m, FChar CHR ''/'', Dir_d, FChar CHR ''/'', Dir_Y],
      [Dir_m, FChar CHR ''-'', Dir_d, FChar CHR ''-'', Dir_Y],
      [Dir_Y, FChar CHR ''-'', Dir_m, FChar CHR ''-'', Dir_d],
      [Dir_m, FChar CHR ''/'', Dir_d, FChar CHR ''/'', Dir_y],
      [Dir_B, FSpace, Dir_d, FChar CHR '','', FSpace, Dir_Y],
      [Dir_b, FSpace, Dir_d, FChar CHR '','', FSpace, Dir_Y],
      [Dir_B, FSpace, Dir_d, FSpace, Dir_Y],
      [Dir_b, FSpace, Dir_d, FSpace, Dir_Y]]"

text \<open>The inner loop: the first format that parses wins, a \<open>ValueError\<close> moves on.\<close>

fun try_formats :: "string \<Rightarrow> fmt_item list list \<Rightarrow> datetime option" where
  "try_formats date_str [] = None"
| "try_formats date_str (fmt # fmts) =
     (case strptime date_str fmt of
        Some d \<Rightarrow> Some d
      | None \<Rightarrow> try_formats date_str fmts)"

text \<open>The outer loop over the patterns.\<close>

fun try_date_patterns :: "string \<Rightarrow> rx list \<Rightarrow> datetime option" where
  "try_date_patterns combined_text [] = None"
| "try_date_patterns combined_text (pattern # patterns) =
     (case findall pattern combined_text of
        [] \<Rightarrow> try_date_patterns combined_text patterns
      | date_str # others \<Rightarrow>
          (case try_formats date_str date_formats of
             Some d \<Rightarrow> Some d
           | None \<Rightarrow> try_date_patterns combined_text patterns))"

definition parse_date :: "string \<Rightarrow> string \<Rightarrow> datetime option" where
  "parse_date date_text full_text =
     try_date_patterns (date_text @ '' '' @ full_text) date_patterns"

text \<open>
  \<open>ReceiptScraper._parse_amount\<close>, with the patterns \<^verbatim>\<open>\$(\d+\.\d{2})\<close>,
  \<^verbatim>\<open>\$(\d+,\d+\.\d{2})\<close>, \<^verbatim>\<open>\$(\d+)\<close>, \<^verbatim>\<open>(\d+\.\d{2})\<close> and
  \<^verbatim>\<open>Total[:\s]*\$?(\d+\.\d{2})\<close>.
\<close>

definition amount_patterns :: "rx list" where
  "amount_patterns =
     [Seq (lit CHR ''$'') (Group 1 (seqs [rx_plus rx_digit, lit CHR ''.'', digits_2])),
      Seq (lit CHR ''$'') (Group 1 (seqs [rx_plus rx_digit, lit CHR '','', rx_plus rx_digit,
                                          lit CHR ''.'', digits_2])),
      Seq (lit CHR ''$'') (Group 1 (rx_plus rx_digit)),
      Group 1 (seqs [rx_plus rx_digit, lit CHR ''.'', digits_2]),
      seqs [lits ''Total'', Star (Class False [CChar CHR '':'', CSpace]), rx_opt (lit CHR ''$''),
            Group 1 (seqs [rx_plus rx_digit, lit CHR ''.'', digits_2])]]"

fun try_amount_patterns :: "string \<Rightarrow> rx list \<Rightarrow> rat" where
  "try_amount_patterns combined_text [] = 0"
| "try_amount_patterns combined_text (pattern # patterns) =
     (case findall pattern combined_text of
        [] \<Rightarrow> try_amount_patterns combined_text patterns
      | m # others \<Rightarrow>
          (case float_of_str (filter (\<lambda>c. c \<noteq> CHR '','') m) of
             Some a \<Rightarrow> a
           | None \<Rightarrow> try_amount_patterns combined_text patterns))"

definition parse_amount :: "string \<Rightarrow> string \<Rightarrow> rat" where
  "parse_amount amount_text full_text =
     try_amount_patterns (amount_text @ '' '' @ full_text) amount_patterns"

text \<open>
  \<open>ReceiptScraper._parse_location\<close>, with the patterns \<^verbatim>\<open>Costco\s+([^,\n]+)\<close>,
  \<^verbatim>\<open>Store[:\s]+([^,\n]+)\<close>, \<^verbatim>\<open>Location[:\s]+([^,\n]+)\<close>, \<^verbatim>\<open>Warehouse[:\s]+([^,\n]+)\<close>
  and the fallback over the words of the text.
\<close>

definition name_part :: rx where
  "name_part = Group 1 (rx_plus (Class True [CChar CHR '','', CChar (CHR 0x0A)]))"

definition colon_or_space :: rx where
  "colon_or_space = Class False [CChar CHR '':'', CSpace]"

definition location_patterns :: "rx list" where
  "location_patterns =
     [seqs [lits ''Costco'', rx_plus rx_space, name_part],
      seqs [lits ''Store'', rx_plus colon_or_space, name_part],
      seqs [lits ''Location'', rx_plus colon_or_space, name_part],
      seqs [lits ''Warehouse'', rx_plus colon_or_space, name_part]]"

fun try_location_patterns :: "string \<Rightarrow> rx list \<Rightarrow> string option" where
  "try_location_patterns combined_text [] = None"
| "try_location_patterns combined_text (pattern # patterns) =
     (case findall pattern combined_text of
        [] \<Rightarrow> try_location_patterns combined_text patterns
      | m # others \<Rightarrow> Some (strip m))"

fun location_from_words :: "string list \<Rightarrow> string option" where
  "location_from_words [] = None"
| "location_from_words (word # following) =
     (if map to_lower word \<in> set [''costco'', ''warehouse'', ''store''] \<and> following \<noteq> []
      then Some (join_space (take 3 following))
      else location_from_words following)"

definition parse_location :: "string \<Rightarrow> string \<Rightarrow> string" where
  "parse_location location_text full_text =
     (let combined_text = location_text @ '' '' @ full_text
      in case try_location_patterns combined_text location_patterns of
           Some l \<Rightarrow> l
         | None \<Rightarrow>
             (case location_from_words (split_ws combined_text) of
                Some l \<Rightarrow> l
              | None \<Rightarrow> ''Unknown Location''))"

text \<open>
  The dictionary that the page script builds for one container. A key that the script
  did not set is \<open>None\<close>; \<open>data.get(key, '')\<close> reads it as the empty string.
\<close>

record container_data =
  attributes :: "(string \<times> string) list"
  idx :: "nat option"
  full_text :: "string option"
  dateText :: "string option"
  amountText :: "string option"
  locationText :: "string option"

definition get_str :: "string option \<Rightarrow> string" where
  "get_str v = (case v of None \<Rightarrow> [] | Some s \<Rightarrow> s)"

text \<open>\<open>a or b\<close> on strings: the first non-empty one.\<close>

fun first_truthy :: "string option list \<Rightarrow> string \<Rightarrow> string" where
  "first_truthy [] fallback = fallback"
| "first_truthy (None # vs) fallback = first_truthy vs fallback"
| "first_truthy (Some v # vs) fallback = (if v \<noteq> [] then v else first_truthy vs fallback)"

text \<open>
  \<open>ReceiptScraper._parse_receipt_data\<close>; \<open>epoch\<close> is \<open>int(time.time())\<close>. \<open>None\<close> is the
  rejected candidate.
\<close>

definition parse_receipt_data :: "nat \<Rightarrow> container_data \<Rightarrow> receipt option" where
  "parse_receipt_data epoch data =
     (let attrs = map_of (attributes data);
          rid = first_truthy [attrs ''data-receipt-id'', attrs ''data-order-id'',
                              attrs ''data-transaction-id'', attrs ''id'']
                  (''receipt_'' @ str_nat (case idx data of None \<Rightarrow> 0 | Some i \<Rightarrow> i) @ ''_'' @ str_nat epoch)
      in case parse_date (get_str (dateText data)) (get_str (full_text data)) of
           None \<Rightarrow> None
         | Some receipt_date \<Rightarrow>
             (let total = parse_amount (get_str (amountText data)) (get_str (full_text data))
              in if total \<le> 0 then None
                 else (let l = parse_location (get_str (locationText data)) (get_str (full_text data));
                           loc = (if l = [] then ''Unknown Location'' else l)
                       in Some (Receipt rid receipt_date loc total))))"

section \<open>Rate limiter and circuit breaker (error\_handler.py)\<close>

text \<open>
  \<open>RateLimiter\<close>. Clock readings (\<open>time.time()\<close>) and durations are seconds, modelled as
  rationals. \<open>wait_if_needed\<close> reads the clock once, on entry; the sample drawn by
  \<open>random.uniform(min_delay, max_delay)\<close> is an argument of the model. The effects of a
  call are returned as a trace, in the order the source performs them. \<open>min\<close> of an
  empty list raises \<open>ValueError\<close>.
\<close>

record rate_limiter =
  min_delay :: rat
  max_delay :: rat
  requests_per_minute :: int
  last_request_times :: "rat list"

datatype py_error = ValueError

datatype limiter_event = Sleep rat | Record rat

fun min_list_py :: "rat list \<Rightarrow> py_error + rat" where
  "min_list_py [] = Inl ValueError"
| "min_list_py (t # ts) = Inr (fold min ts t)"

definition wait_if_needed ::
  "rat \<Rightarrow> rat \<Rightarrow> rate_limiter \<Rightarrow> py_error + (limiter_event list \<times> rate_limiter)" where
  "wait_if_needed now delay rl =
     (let cutoff = now - 60;
          kept = filter (\<lambda>t. t > cutoff) (last_request_times rl);
          recorded = rl\<lparr>last_request_times := kept @ [now]\<rparr>
      in if int (length kept) \<ge> requests_per_minute rl
         then (case min_list_py kept of
                 Inl e \<Rightarrow> Inl e
               | Inr oldest_request \<Rightarrow>
                   (let wait_time = 60 - (now - oldest_request)
                    in if wait_time > 0
                       then Inr ([Sleep wait_time, Sleep delay, Record now], recorded)
                       else Inr ([Sleep delay, Record now], recorded)))
         else Inr ([Sleep delay, Record now], recorded))"

text \<open>
  A run of gated calls: each call is given by the clock reading on its entry and its
  random delay. The run stops at the first exception.
\<close>

fun gated_calls :: "rate_limiter \<Rightarrow> (rat \<times> rat) list \<Rightarrow> py_error + rate_limiter" where
  "gated_calls rl [] = Inr rl"
| "gated_calls rl ((now, delay) # calls) =
     (case wait_if_needed now delay rl of
        Inl e \<Rightarrow> Inl e
      | Inr (trace, rl') \<Rightarrow> gated_calls rl' calls)"

text \<open>
  \<open>ErrorRecovery\<close>. A reading of \<open>datetime.now()\<close> is modelled by its position on the
  time line in microseconds. The difference of two readings is a \<open>timedelta\<close>, which
  Python keeps normalized as days, seconds (0 to 86399) and microseconds; the attribute
  \<open>.seconds\<close> that \<open>should_continue\<close> reads is the middle component.
\<close>

definition timedelta_seconds :: "int \<Rightarrow> int" where
  "timedelta_seconds delta_us = (delta_us mod (86400 * 1000000)) div 1000000"

text \<open>The whole length of the difference in seconds, rounded down.\<close>

definition elapsed_seconds :: "int \<Rightarrow> int" where
  "elapsed_seconds delta_us = delta_us div 1000000"

record error_recovery =
  error_counts :: "string \<rightharpoonup> int"
  last_error_time :: "string \<rightharpoonup> int"

definition new_error_recovery :: error_recovery where
  "new_error_recovery = \<lparr> error_counts = Map.empty, last_error_time = Map.empty \<rparr>"

definition get_count :: "error_recovery \<Rightarrow> string \<Rightarrow> int" where
  "get_count er error_type = (case error_counts er error_type of None \<Rightarrow> 0 | Some c \<Rightarrow> c)"

definition record_error :: "int \<Rightarrow> string \<Rightarrow> error_recovery \<Rightarrow> error_recovery" where
  "record_error now error_type er =
     er\<lparr> error_counts := (error_counts er)(error_type \<mapsto> get_count er error_type + 1),
         last_error_time := (last_error_time er)(error_type \<mapsto> now) \<rparr>"

definition should_continue :: "int \<Rightarrow> error_recovery \<Rightarrow> string \<Rightarrow> int \<Rightarrow> int \<Rightarrow> bool" where
  "should_continue now er error_type max_errors time_window =
     (let error_count = get_count er error_type;
          last_error = last_error_time er error_type
      in if error_count \<ge> max_errors
         then (case last_error of
                 None \<Rightarrow> True
               | Some t \<Rightarrow> if timedelta_seconds (now - t) < time_window then False else True)
         else True)"

definition reset_error_count :: "string \<Rightarrow> error_recovery \<Rightarrow> error_recovery" where
  "reset_error_count error_type er =
     er\<lparr> error_counts := (error_counts er)(error_type \<mapsto> 0),
         last_error_time := (last_error_time er)(error_type := None) \<rparr>"

section \<open>Authentication (authenticator.py)\<close>

record auth_result =
  success :: bool
  message :: string
  requires_2fa :: bool
  session_saved :: bool

text \<open>\<open>AuthResult(success, message, requires_2fa=False, session_saved=False)\<close>.\<close>

definition AuthResult :: "bool \<Rightarrow> string \<Rightarrow> bool \<Rightarrow> auth_result" where
  "AuthResult s m tfa = \<lparr> success = s, message = m, requires_2fa = tfa, session_saved = False \<rparr>"

text \<open>
  What the browser driver answers while \<open>_check_login_result\<close> runs. The source makes
  separate calls \<open>is_visible()\<close> and \<open>inner_text()\<close> on a locator, inside
  \<open>try: ... except: continue\<close>; each call can raise, which is \<open>None\<close> here.
  \<open>login_field_count\<close> is the \<open>count()\<close> of the locator
  \<^verbatim>\<open>input[type="email"], input[type="password"], input[name="logonId"]\<close>.
\<close>

record page_state =
  url :: string
  is_visible :: "string \<Rightarrow> bool option"
  inner_text :: "string \<Rightarrow> string option"
  login_field_count :: nat

definition error_indicators :: "string list" where
  \<open>error_indicators = [''.error'', ''.alert-danger'', ''.field-validation-error'',
                       ''[role="alert"]'', ''.invalid-feedback'']\<close>

definition tfa_indicators :: "string list" where
  \<open>tfa_indicators = [''input[placeholder*="code" i]'', ''input[placeholder*="verification" i]'',
                     '':has-text("verification code")'', '':has-text("two-factor")'',
                     '':has-text("authenticator")'']\<close>

definition success_indicators :: "string list" where
  \<open>success_indicators = ['':has-text("Welcome")'', '':has-text("My Account")'',
                         '':has-text("Sign Out")'', '':has-text("Logout")'',
                         ''.user-info'', ''.account-info'']\<close>

text \<open>\<open>sub in s\<close> on strings.\<close>

fun contains :: "string \<Rightarrow> string \<Rightarrow> bool" where
  "contains sub [] = (sub = [])"
| "contains sub (c # cs) = (take (length sub) (c # cs) = sub \<or> contains sub cs)"

definition url_is_login :: "string \<Rightarrow> bool" where
  "url_is_login u =
     (let l = map to_lower u
      in contains ''login'' l \<or> contains ''signin'' l \<or> contains ''logon'' l)"

text \<open>The loop over the error indicators: the first visible one whose text is read.\<close>

fun find_error :: "page_state \<Rightarrow> string list \<Rightarrow> string option" where
  "find_error p [] = None"
| "find_error p (selector # selectors) =
     (case is_visible p selector of
        None \<Rightarrow> find_error p selectors
      | Some False \<Rightarrow> find_error p selectors
      | Some True \<Rightarrow>
          (case inner_text p selector of
             None \<Rightarrow> find_error p selectors
           | Some error_text \<Rightarrow> Some error_text))"

text \<open>The loops over the two-factor and the success indicators.\<close>

fun any_visible :: "page_state \<Rightarrow> string list \<Rightarrow> bool" where
  "any_visible p [] = False"
| "any_visible p (selector # selectors) =
     (case is_visible p selector of
        None \<Rightarrow> any_visible p selectors
      | Some False \<Rightarrow> any_visible p selectors
      | Some True \<Rightarrow> True)"

definition check_login_result :: "page_state \<Rightarrow> auth_result" where
  "check_login_result p =
     (case find_error p error_indicators of
        Some error_text \<Rightarrow> AuthResult False (''Login error: '' @ error_text) False
      | None \<Rightarrow>
          if any_visible p tfa_indicators
          then AuthResult False ''2FA verification required'' True
          else if url_is_login (url p) \<and> login_field_count p > 0
          then AuthResult False ''Still on login page after submission'' False
          else if any_visible p success_indicators
          then AuthResult True ''Login successful'' False
          else if \<not> url_is_login (url p)
          then AuthResult True ''Login successful - redirected'' False
          else AuthResult False ''Login status unclear'' False)"

text \<open>
  One login attempt. The steps that drive the browser are represented by their outcome:
  whether navigation raised, what \<open>_is_logged_in\<close>, \<open>_fill_login_form\<close> and
  \<open>_submit_login_form\<close> returned, the page that \<open>_check_login_result\<close> then sees, and
  whether \<open>save_session\<close> raised.
\<close>

record attempt_env =
  navigation_raises :: bool
  already_logged_in :: bool
  form_filled :: bool
  form_submitted :: bool
  result_page :: page_state
  save_raises :: bool

datatype attempt_outcome = Raises | Returns auth_result

definition attempt_login :: "attempt_env \<Rightarrow> attempt_outcome" where
  "attempt_login env =
     (if navigation_raises env then Raises
      else if already_logged_in env then Returns (AuthResult True ''Already logged in'' False)
      else if \<not> form_filled env then Returns (AuthResult False ''Could not find or fill login form'' False)
      else if \<not> form_submitted env then Returns (AuthResult False ''Failed to submit login form'' False)
      else Returns (check_login_result (result_page env)))"

text \<open>
  \<open>CostcoAuthenticator.login\<close>. The trace lists what the loop does: \<open>Attempt n\<close> is the
  call of \<open>_attempt_login\<close> for attempt \<open>n\<close>, \<open>BackoffSleep n\<close> the sleep of
  \<open>uniform(3, 8) * n\<close> seconds, \<open>ErrorSleep n\<close> the sleep of \<open>uniform(5, 10)\<close> seconds in
  the exception handler, \<open>SaveSession n\<close> the call of \<open>save_session\<close>.
\<close>

datatype login_event = Attempt nat | SaveSession nat | BackoffSleep nat | ErrorSleep nat

fun event_attempt :: "login_event \<Rightarrow> nat" where
  "event_attempt (Attempt n) = n"
| "event_attempt (SaveSession n) = n"
| "event_attempt (BackoffSleep n) = n"
| "event_attempt (ErrorSleep n) = n"

definition str_int :: "int \<Rightarrow> string" where
  "str_int i = (if i < 0 then ''-'' @ str_nat (nat (- i)) else str_nat (nat i))"

fun login_loop ::
  "(nat \<Rightarrow> attempt_env) \<Rightarrow> int \<Rightarrow> nat list \<Rightarrow> auth_result \<times> login_event list" where
  "login_loop env max_retries [] =
     (AuthResult False (''Login failed after '' @ str_int max_retries @ '' attempts'') False, [])"
| "login_loop env max_retries (attempt # attempts) =
     (let on_error = (if int attempt < max_retries then [ErrorSleep attempt] else []);
          continue = login_loop env max_retries attempts
      in case attempt_login (env attempt) of
           Raises \<Rightarrow> (fst continue, Attempt attempt # on_error @ snd continue)
         | Returns result \<Rightarrow>
             if success result
             then (if save_raises (env attempt)
                   then (fst continue, Attempt attempt # SaveSession attempt # on_error @ snd continue)
                   else (result\<lparr>session_saved := True\<rparr>, [Attempt attempt, SaveSession attempt]))
             else if requires_2fa result
             then (result, [Attempt attempt])
             else (fst continue,
                   Attempt attempt #
                   (if int attempt < max_retries then [BackoffSleep attempt] else []) @ snd continue))"

text \<open>\<open>range(1, max_retries + 1)\<close>.\<close>

definition login :: "(nat \<Rightarrow> attempt_env) \<Rightarrow> int \<Rightarrow> auth_result \<times> login_event list" where
  "login env max_retries = login_loop env max_retries [1 ..< nat max_retries + 1]"

section \<open>The login decision list as the specification words it\<close>

text \<open>
  An indicator is visible when the driver's \<open>is_visible\<close> answers \<open>True\<close>. An error
  indicator is reported when, in addition, the driver returns the element's text.
\<close>

definition visible :: "page_state \<Rightarrow> string \<Rightarrow> bool" where
  "visible p selector \<longleftrightarrow> is_visible p selector = Some True"

definition reported_error :: "page_state \<Rightarrow> string \<Rightarrow> bool" where
  "reported_error p selector \<longleftrightarrow> visible p selector \<and> inner_text p selector \<noteq> None"

text \<open>The six rules, the first that applies deciding.\<close>

definition login_decision_list :: "page_state \<Rightarrow> auth_result" where
  "login_decision_list p =
     (case find (reported_error p) error_indicators of
        Some selector \<Rightarrow> AuthResult False (''Login error: '' @ the (inner_text p selector)) False
      | None \<Rightarrow>
          if \<exists>selector \<in> set tfa_indicators. visible p selector
          then AuthResult False ''2FA verification required'' True
          else if url_is_login (url p) \<and> 0 < login_field_count p
          then AuthResult False ''Still on login page after submission'' False
          else if \<exists>selector \<in> set success_indicators. visible p selector
          then AuthResult True ''Login successful'' False
          else if \<not> url_is_login (url p)
          then AuthResult True ''Login successful - redirected'' False
          else AuthResult False ''Login status unclear'' False)"

text \<open>
  An attempt after which the loop of \<open>login\<close> goes on: it raised, or it returned a
  failure that does not ask for a second factor, or it succeeded and \<open>save_session\<close>
  raised.
\<close>

definition attempt_retried :: "attempt_env \<Rightarrow> bool" where
  "attempt_retried env =
     (case attempt_login env of
        Raises \<Rightarrow> True
      | Returns result \<Rightarrow> if success result then save_raises env else \<not> requires_2fa result)"

section \<open>Sample inputs\<close>

text \<open>Sample values used to instantiate the theorems.\<close>

definition day1 :: datetime where
  "day1 = \<lparr> year = 2024, month = 3, day = 15, hour = 0, minute = 0, second = 0, microsecond = 0 \<rparr>"

definition day1_noon :: datetime where
  "day1_noon = \<lparr> year = 2024, month = 3, day = 15, hour = 12, minute = 30, second = 0, microsecond = 0 \<rparr>"

definition rcpt_a :: receipt where
  "rcpt_a = \<lparr> receipt_id = ''a'', date = day1, location = ''#123'', total_amount = 4567 / 100 \<rparr>"

definition rcpt_b :: receipt where
  "rcpt_b = \<lparr> receipt_id = ''b'', date = day1_noon, location = ''#123'', total_amount = 9135 / 200 \<rparr>"




text \<open>
  A container without child elements, whose text names the store only as
  ``Costco Store'': the page script sets none of the three text fragments.
\<close>

definition store_container :: container_data where
  "store_container =
     \<lparr> attributes = [], idx = Some 0, full_text = Some ''Costco Store, 03/15/2024 $45.67'',
       dateText = None, amountText = None, locationText = None \<rparr>"


text \<open>Five errors of one kind, recorded one second apart from time 0 on.\<close>

definition five_errors :: error_recovery where
  "five_errors =
     fold (\<lambda>t. record_error t ''navigation'') [0, 1000000, 2000000, 3000000, 4000000]
       new_error_recovery"

text \<open>
  A page that was redirected to the home page and shows the account menu, with an error
  banner on top.
\<close>

definition error_banner_page :: page_state where
  "error_banner_page =
     \<lparr> url = ''https://www.costco.com/'',
       is_visible = (\<lambda>selector. Some (selector \<in> set [''.alert-danger'', ''.user-info''])),
       inner_text = (\<lambda>selector. if selector = ''.alert-danger'' then Some ''Invalid password''
                                 else if selector = ''.user-info'' then Some ''My Account''
                                 else None),
       login_field_count = 0 \<rparr>"

text \<open>
  A page that was redirected to the home page and shows an error banner whose text
  cannot be read: \<open>inner_text\<close> raises, for instance because the banner is removed
  between the two calls.
\<close>

definition unreadable_banner_page :: page_state where
  "unreadable_banner_page =
     \<lparr> url = ''https://www.costco.com/'',
       is_visible = (\<lambda>selector. Some (selector = ''.error'')),
       inner_text = (\<lambda>selector. None),
       login_field_count = 0 \<rparr>"

text \<open>A page that asks for a verification code, and a login page that did not change.\<close>

definition code_prompt_page :: page_state where
  \<open>code_prompt_page =
     \<lparr> url = ''https://www.costco.com/LogonForm'',
       is_visible = (\<lambda>selector. Some (selector = ''input[placeholder*="code" i]'')),
       inner_text = (\<lambda>selector. None),
       login_field_count = 0 \<rparr>\<close>

definition unchanged_login_page :: page_state where
  "unchanged_login_page =
     \<lparr> url = ''https://www.costco.com/LogonForm'',
       is_visible = (\<lambda>selector. Some False),
       inner_text = (\<lambda>selector. None),
       login_field_count = 2 \<rparr>"

definition attempt_on :: "page_state \<Rightarrow> attempt_env" where
  "attempt_on p =
     \<lparr> navigation_raises = False, already_logged_in = False, form_filled = True,
       form_submitted = True, result_page = p, save_raises = False \<rparr>"

text \<open>A failed first attempt, then the prompt for a code.\<close>

definition two_attempts :: "nat \<Rightarrow> attempt_env" where
  "two_attempts n = (if n = 2 then attempt_on code_prompt_page else attempt_on unchanged_login_page)"

text \<open>A limiter with a cap of two requests per minute.\<close>

definition small_limiter :: rate_limiter where
  "small_limiter = \<lparr> min_delay = 2, max_delay = 8, requests_per_minute = 2, last_request_times = [] \<rparr>"

section \<open>Properties of the batch accumulator\<close>

lemma update_range_fields [simp]:
  "receipts (update_range b r) = receipts b"
  "total_count (update_range b r) = total_count b"
  "scraped_count (update_range b r) = scraped_count b"
  "failed_count (update_range b r) = failed_count b"
  "duplicate_count (update_range b r) = duplicate_count b"
  by (simp_all add: update_range_def Let_def split: option.splits)

lemma add_receipt_consistent:
  "counters_consistent b \<Longrightarrow> counters_consistent (add_receipt b r d)"
  by (simp add: counters_consistent_def add_receipt_def Let_def)

lemma add_failed_consistent:
  "counters_consistent b \<Longrightarrow> counters_consistent (add_failed b)"
  by (simp add: counters_consistent_def add_failed_def)

lemma apply_calls_consistent:
  "counters_consistent b \<Longrightarrow> counters_consistent (apply_calls b cs)"
proof (induction cs arbitrary: b)
  case Nil
  then show ?case by simp
next
  case (Cons c cs)
  have "counters_consistent (apply_call b c)"
    using Cons.prems by (cases c) (simp_all add: add_receipt_consistent add_failed_consistent)
  then show ?case using Cons.IH by simp
qed

lemma new_batch_consistent: "counters_consistent new_batch"
  by (simp add: counters_consistent_def new_batch_def)


text \<open>
  Claim C10. Starting from an empty batch, after any sequence of \<open>add_receipt\<close> and
  \<open>add_failed\<close> calls the counters satisfy
  \<open>total_count = scraped_count + duplicate_count + failed_count\<close> and \<open>scraped_count\<close> is
  the length of the accepted-receipt list; each of the two operations preserves this.
\<close>

theorem batch_counters_invariant:
  "counters_consistent (apply_calls new_batch cs) \<and>
   (\<forall>b r d. counters_consistent b \<longrightarrow>
        counters_consistent (add_receipt b r d) \<and> counters_consistent (add_failed b))"
  using apply_calls_consistent [OF new_batch_consistent]
    add_receipt_consistent add_failed_consistent by blast

theorem batch_counters_invariant_witness:
  "counters_consistent new_batch \<and>
   counters_consistent (add_receipt new_batch rcpt_a False) \<and>
   counters_consistent (add_failed new_batch) \<and>
   total_count (apply_calls new_batch [AddReceipt rcpt_a False, AddReceipt rcpt_b True, AddFailed]) = 3 \<and>
   counters_consistent (apply_calls new_batch [AddReceipt rcpt_a False, AddReceipt rcpt_b True, AddFailed])"
proof -
  have c0: "counters_consistent new_batch"
    by (simp add: counters_consistent_def new_batch_def)
  have t: "total_count (apply_calls new_batch [AddReceipt rcpt_a False, AddReceipt rcpt_b True, AddFailed]) = 3"
    by (simp add: add_receipt_def add_failed_def new_batch_def Let_def)
  from batch_counters_invariant [of "[AddReceipt rcpt_a False, AddReceipt rcpt_b True, AddFailed]"] c0 t
  show ?thesis by blast
qed









section \<open>Properties of the parsers\<close>

lemma strptime_valid:
  "strptime s fmt = Some d \<Longrightarrow> valid_date (year d) (month d) (day d)"
  by (auto simp: strptime_def Let_def split: list.splits if_splits prod.splits)

lemma try_formats_valid:
  "try_formats s fmts = Some d \<Longrightarrow> valid_date (year d) (month d) (day d)"
  by (induction fmts) (auto split: option.splits dest: strptime_valid)

lemma try_date_patterns_valid:
  "try_date_patterns t ps = Some d \<Longrightarrow> valid_date (year d) (month d) (day d)"
  by (induction ps) (auto split: option.splits list.splits dest: try_formats_valid)

lemma parse_date_valid:
  "parse_date date_text t = Some d \<Longrightarrow> valid_date (year d) (month d) (day d)"
  unfolding parse_date_def by (rule try_date_patterns_valid)

text \<open>
  Every receipt that \<open>_parse_receipt_data\<close> emits has a positive amount and a valid
  calendar date.
\<close>

lemma Receipt_fields [simp]:
  "total_amount (Receipt rid d loc amt) = amt"
  "date (Receipt rid d loc amt) = d"
  by (simp_all add: Receipt_def)

lemma parse_receipt_data_amount_date:
  assumes "parse_receipt_data epoch data = Some r"
  shows "0 < total_amount r \<and> valid_date (year (date r)) (month (date r)) (day (date r))"
proof (cases "parse_date (get_str (dateText data)) (get_str (full_text data))")
  case None
  with assms show ?thesis by (simp add: parse_receipt_data_def Let_def)
next
  case (Some d)
  let ?total = "parse_amount (get_str (amountText data)) (get_str (full_text data))"
  from assms Some have pos: "\<not> ?total \<le> 0"
    by (auto simp: parse_receipt_data_def Let_def split: if_splits)
  from assms Some pos obtain rid loc where r: "r = Receipt rid d loc ?total"
    by (auto simp: parse_receipt_data_def Let_def)
  from parse_date_valid [OF Some] pos r show ?thesis by simp
qed

lemma no_date_rejected:
  "parse_date (get_str (dateText data)) (get_str (full_text data)) = None \<Longrightarrow>
   parse_receipt_data epoch data = None"
  by (simp add: parse_receipt_data_def Let_def)







lemma parse_date_no_pattern: "parse_date ''abc'' [] = None"
  by code_simp













text \<open>
  Claim C1. A container with the text ``Costco Store, 03/15/2024 $45.67'' is emitted as
  a receipt: \<open>_parse_location\<close> captures ``Store'', which is non-empty and passes the
  guard, and the constructor then normalizes it to the empty string. So an emitted
  receipt can have an empty location, while its amount and date satisfy the invariant.
\<close>

theorem emitted_receipt_empty_location:
  "parse_receipt_data 17 store_container =
     Some \<lparr> receipt_id = ''receipt_0_17'', date = day1, location = [], total_amount = 4567 / 100 \<rparr>"
  unfolding store_container_def day1_def by code_simp

text \<open>
  Claim C4. The text ``March 15, 2024'' matches the fifth date pattern, but
  \<open>re.findall\<close> returns what the pattern's only group captured, the month abbreviation
  ``Mar'', and no format parses that: the date is not resolved, although the format
  \<open>%B %d, %Y\<close> parses the whole text.
\<close>

theorem parse_date_month_name_unresolved:
  "parse_date ''March 15, 2024'' [] = None \<and>
   findall (date_patterns ! 4) ''March 15, 2024 '' = [''Mar''] \<and>
   strptime ''March 15, 2024'' (date_formats ! 4) = Some day1"
  unfolding day1_def by code_simp



text \<open>
  Claim C6. Normalization maps ``Costco Wholesale #123 Warehouse'' to ``#123''; the
  prefix and the suffix are recognized in any letter case and runs of whitespace collapse.
\<close>

theorem clean_location_example:
  "clean_location ''Costco Wholesale #123 Warehouse'' = ''#123'' \<and>
   clean_location ''  costco   WHOLESALE  #123   store '' = ''#123''"
  by code_simp

section \<open>Properties of the circuit breaker\<close>

lemma should_continue_false_iff:
  "should_continue now er kind max_errors time_window = False \<longleftrightarrow>
     max_errors \<le> get_count er kind \<and>
     (\<exists>t. last_error_time er kind = Some t \<and> timedelta_seconds (now - t) < time_window)"
  by (auto simp: should_continue_def Let_def split: option.splits)

lemma should_continue_after_reset:
  "should_continue now (reset_error_count kind er) kind max_errors time_window"
  by (simp add: should_continue_def reset_error_count_def get_count_def Let_def)

text \<open>
  Claim C9. Five errors of one kind are recorded, the last one at second 4, and
  \<open>should_continue\<close> is asked one day and ten seconds after the last one, with
  \<open>max_errors = 5\<close> and \<open>time_window = 300\<close>. The last occurrence is 86410 seconds old,
  outside the window, yet the answer is \<open>False\<close>: the source compares the \<open>.seconds\<close>
  component of the difference, which is 10.
\<close>

theorem should_continue_day_old_errors:
  "should_continue (86414 * 1000000) five_errors ''navigation'' 5 300 = False \<and>
   get_count five_errors ''navigation'' = 5 \<and>
   last_error_time five_errors ''navigation'' = Some 4000000 \<and>
   elapsed_seconds (86414 * 1000000 - 4000000) = 86410 \<and>
   timedelta_seconds (86414 * 1000000 - 4000000) = 10"
  by (simp add: should_continue_def five_errors_def record_error_def new_error_recovery_def
      get_count_def timedelta_seconds_def elapsed_seconds_def Let_def)

section \<open>Properties of the login result evaluation\<close>

lemma find_error_find:
  "find_error p sels =
     (case find (reported_error p) sels of None \<Rightarrow> None | Some sel \<Rightarrow> inner_text p sel)"
  by (induction sels) (auto simp: reported_error_def visible_def split: option.splits bool.splits)

lemma any_visible_iff:
  "any_visible p sels \<longleftrightarrow> (\<exists>sel \<in> set sels. visible p sel)"
  by (induction sels) (auto simp: visible_def split: option.splits bool.splits)

lemma check_login_result_refines:
  "check_login_result p = login_decision_list p"
  unfolding check_login_result_def login_decision_list_def
  by (auto simp: find_error_find any_visible_iff reported_error_def
      split: option.splits dest: find_Some_iff[THEN iffD1])

lemma find_error_reports:
  assumes "selector \<in> set sels" "is_visible p selector = Some True" "inner_text p selector = Some t"
  shows "\<exists>s \<in> set sels. \<exists>t'. is_visible p s = Some True \<and> inner_text p s = Some t' \<and>
           find_error p sels = Some t'"
  using assms
proof (induction sels)
  case Nil
  then show ?case by simp
next
  case (Cons s sels)
  show ?case
  proof (cases "is_visible p s = Some True \<and> inner_text p s \<noteq> None")
    case True
    then show ?thesis by auto
  next
    case False
    then have skip: "find_error p (s # sels) = find_error p sels"
      by (auto split: option.splits bool.splits)
    from False Cons.prems have "selector \<in> set sels" by auto
    from Cons.IH [OF this Cons.prems(2,3)] skip show ?thesis by auto
  qed
qed

text \<open>
  Claim C3 as stated fails: a visible error indicator does not always give a failure.
  On a page that left the login URL, with the indicator \<open>.error\<close> visible and its
  text not readable, the error loop skips the indicator and the result is a success.
\<close>

theorem visible_error_success_counterexample:
  "''.error'' \<in> set error_indicators \<and>
   is_visible unreadable_banner_page ''.error'' = Some True \<and>
   inner_text unreadable_banner_page ''.error'' = None \<and>
   check_login_result unreadable_banner_page =
     AuthResult True ''Login successful - redirected'' False \<and>
   success (check_login_result unreadable_banner_page) = True"
proof -
  have e: "''.error'' \<in> set error_indicators"
    by (simp add: error_indicators_def)
  have v: "is_visible unreadable_banner_page ''.error'' = Some True"
    "inner_text unreadable_banner_page ''.error'' = None"
    by (simp_all add: unreadable_banner_page_def)
  have r: "check_login_result unreadable_banner_page =
     AuthResult True ''Login successful - redirected'' False"
    by code_simp
  from e v r show ?thesis by (simp add: AuthResult_def)
qed

text \<open>
  Claim C3, amended. \<open>_check_login_result\<close> computes the ordered decision list: (1) the
  first error indicator that is visible and whose text the driver returns gives a
  failure carrying that text (the message is ``Login error: '' followed by the text); an
  indicator whose visibility check or text read raises is skipped; (2) a visible
  two-factor indicator gives the two-factor result; (3) a login URL with a login field
  present gives a failure; (4) a visible success indicator gives success; (5) a URL that
  is not a login URL gives success; (6) otherwise the status is unclear, a failure. In
  particular, whenever some error indicator is visible and its text is returned, the
  result is a failure with the text of such an indicator, whatever the URL and the
  success indicators are.
\<close>

theorem check_login_result_decision_list:
  "check_login_result p = login_decision_list p \<and>
   ((\<exists>selector \<in> set error_indicators. \<exists>t.
        is_visible p selector = Some True \<and> inner_text p selector = Some t) \<longrightarrow>
    success (check_login_result p) = False \<and>
    requires_2fa (check_login_result p) = False \<and>
    (\<exists>selector \<in> set error_indicators. \<exists>t.
        is_visible p selector = Some True \<and> inner_text p selector = Some t \<and>
        message (check_login_result p) = ''Login error: '' @ t))"
proof (intro conjI impI)
  show "check_login_result p = login_decision_list p"
    by (rule check_login_result_refines)
next
  assume "\<exists>selector \<in> set error_indicators. \<exists>t.
        is_visible p selector = Some True \<and> inner_text p selector = Some t"
  then obtain s t where "s \<in> set error_indicators" "is_visible p s = Some True"
      "inner_text p s = Some t"
    by blast
  from find_error_reports [OF this]
  obtain s' t' where s': "s' \<in> set error_indicators" "is_visible p s' = Some True"
      "inner_text p s' = Some t'" "find_error p error_indicators = Some t'"
    by blast
  then have res: "check_login_result p = AuthResult False (''Login error: '' @ t') False"
    by (simp add: check_login_result_def)
  show "success (check_login_result p) = False"
    by (simp add: res AuthResult_def)
  show "requires_2fa (check_login_result p) = False"
    by (simp add: res AuthResult_def)
  have "message (check_login_result p) = ''Login error: '' @ t'"
    by (simp add: res AuthResult_def)
  with s' show "\<exists>selector \<in> set error_indicators. \<exists>t.
        is_visible p selector = Some True \<and> inner_text p selector = Some t \<and>
        message (check_login_result p) = ''Login error: '' @ t"
    by blast
qed

theorem check_login_result_decision_list_witness:
  "\<not> url_is_login (url error_banner_page) \<and>
   is_visible error_banner_page ''.user-info'' = Some True \<and>
   is_visible error_banner_page ''.alert-danger'' = Some True \<and>
   inner_text error_banner_page ''.alert-danger'' = Some ''Invalid password'' \<and>
   success (check_login_result error_banner_page) = False \<and>
   requires_2fa (check_login_result error_banner_page) = False \<and>
   check_login_result error_banner_page = login_decision_list error_banner_page"
proof -
  have url: "\<not> url_is_login (url error_banner_page)"
    by code_simp
  have v: "is_visible error_banner_page ''.user-info'' = Some True"
    "is_visible error_banner_page ''.alert-danger'' = Some True"
    "inner_text error_banner_page ''.alert-danger'' = Some ''Invalid password''"
    by (simp_all add: error_banner_page_def)
  have "\<exists>selector \<in> set error_indicators. \<exists>t.
        is_visible error_banner_page selector = Some True \<and>
        inner_text error_banner_page selector = Some t"
    using v by (auto simp: error_indicators_def)
  with check_login_result_decision_list [of error_banner_page] url v
  show ?thesis by blast
qed

section \<open>Properties of the login loop\<close>

lemma tfa_result_not_success:
  assumes "attempt_login env = Returns r" "requires_2fa r"
  shows "\<not> success r"
  using assms
  by (auto simp: attempt_login_def check_login_result_def AuthResult_def
      split: if_splits option.splits)

lemma login_loop_stops_at_tfa:
  assumes tfa: "attempt_login (env k) = Returns r" "requires_2fa r"
    and earlier: "\<forall>j \<in> set xs. attempt_retried (env j) \<and> j < k"
  shows "fst (login_loop env m (xs @ k # ys)) = r \<and>
         (\<exists>tr. snd (login_loop env m (xs @ k # ys)) = tr @ [Attempt k] \<and>
               (\<forall>e \<in> set tr. event_attempt e < k))"
  using earlier
proof (induction xs)
  case Nil
  from tfa tfa_result_not_success [OF tfa]
  have "login_loop env m (k # ys) = (r, [Attempt k])"
    by (simp add: Let_def)
  then show ?case by simp
next
  case (Cons j xs)
  from Cons.prems have retried: "attempt_retried (env j)" and less: "j < k"
    and rest: "\<forall>i \<in> set xs. attempt_retried (env i) \<and> i < k"
    by simp_all
  from Cons.IH [OF rest] obtain tr where
    res: "fst (login_loop env m (xs @ k # ys)) = r" and
    tr: "snd (login_loop env m (xs @ k # ys)) = tr @ [Attempt k]" and
    before: "\<forall>e \<in> set tr. event_attempt e < k"
    by blast
  define sleeps where "sleeps =
     (case attempt_login (env j) of
        Raises \<Rightarrow> (if int j < m then [ErrorSleep j] else [])
      | Returns result \<Rightarrow>
          if success result then SaveSession j # (if int j < m then [ErrorSleep j] else [])
          else (if int j < m then [BackoffSleep j] else []))"
  have step: "login_loop env m (j # (xs @ k # ys)) =
      (fst (login_loop env m (xs @ k # ys)),
       Attempt j # sleeps @ snd (login_loop env m (xs @ k # ys)))"
    using retried
    by (auto simp: attempt_retried_def sleeps_def Let_def split: attempt_outcome.splits)
  have sleeps_before: "\<forall>e \<in> set sleeps. event_attempt e < k"
    using less by (auto simp: sleeps_def split: attempt_outcome.splits)
  have full: "login_loop env m ((j # xs) @ k # ys) = (r, (Attempt j # sleeps @ tr) @ [Attempt k])"
    unfolding append_Cons step res tr by simp
  have "\<forall>e \<in> set (Attempt j # sleeps @ tr). event_attempt e < k"
    using less sleeps_before before by auto
  with full show ?case by (metis fst_conv snd_conv)
qed

lemma attempts_split:
  assumes "1 \<le> k" "int k \<le> m"
  shows "[1 ..< nat m + 1] = [1 ..< k] @ k # [k + 1 ..< nat m + 1]"
proof -
  from assms have "k < nat m + 1" by linarith
  with assms(1) have "[1 ..< nat m + 1] = [1 ..< k] @ [k ..< nat m + 1]"
    by (metis le_add_diff_inverse less_imp_le_nat upt_add_eq_append)
  moreover from \<open>k < nat m + 1\<close> have "[k ..< nat m + 1] = k # [k + 1 ..< nat m + 1]"
    by (simp add: upt_conv_Cons)
  ultimately show ?thesis by simp
qed

text \<open>
  Claim C7. Let attempt \<open>k\<close> be within the configured maximum and be reached, that is,
  every earlier attempt was one after which the loop goes on. If attempt \<open>k\<close> returns a
  result that requires a second factor, \<open>login\<close> returns exactly that result, whose
  \<open>success\<close> is false and \<open>requires_2fa\<close> true; the call of attempt \<open>k\<close> is the last thing
  the loop does, so there is no sleep after it and no attempt with a higher number.
\<close>

theorem login_returns_tfa_immediately:
  assumes "1 \<le> k" "int k \<le> max_retries"
    and "\<forall>j. 1 \<le> j \<and> j < k \<longrightarrow> attempt_retried (env j)"
    and "attempt_login (env k) = Returns r" "requires_2fa r"
  shows "fst (login env max_retries) = r \<and> success r = False \<and> requires_2fa r = True \<and>
         (\<exists>tr. snd (login env max_retries) = tr @ [Attempt k] \<and>
               (\<forall>e \<in> set tr. event_attempt e < k))"
proof -
  have earlier: "\<forall>j \<in> set [1 ..< k]. attempt_retried (env j) \<and> j < k"
    using assms(3) by simp
  have "login env max_retries = login_loop env max_retries ([1 ..< k] @ k # [k + 1 ..< nat max_retries + 1])"
    unfolding login_def using attempts_split [OF assms(1,2)] by simp
  with login_loop_stops_at_tfa [OF assms(4,5) earlier, of max_retries "[k + 1 ..< nat max_retries + 1]"]
    tfa_result_not_success [OF assms(4,5)] assms(5)
  show ?thesis by simp
qed

theorem login_returns_tfa_immediately_witness:
  "attempt_retried (two_attempts 1) \<and>
   attempt_login (two_attempts 2) = Returns (AuthResult False ''2FA verification required'' True) \<and>
   fst (login two_attempts 3) = AuthResult False ''2FA verification required'' True \<and>
   (\<exists>tr. snd (login two_attempts 3) = tr @ [Attempt 2] \<and> (\<forall>e \<in> set tr. event_attempt e < 2))"
proof -
  have first: "attempt_retried (two_attempts 1)"
    by code_simp
  have second: "attempt_login (two_attempts 2) = Returns (AuthResult False ''2FA verification required'' True)"
    by code_simp
  have tfa: "requires_2fa (AuthResult False ''2FA verification required'' True)"
    by (simp add: AuthResult_def)
  have earlier: "\<forall>j. 1 \<le> j \<and> j < 2 \<longrightarrow> attempt_retried (two_attempts j)"
  proof (intro allI impI)
    fix j :: nat assume "1 \<le> j \<and> j < 2"
    then have "j = 1" by simp
    with first show "attempt_retried (two_attempts j)" by simp
  qed
  from login_returns_tfa_immediately [of 2 3 two_attempts, OF _ _ earlier second tfa] first second
  show ?thesis by simp
qed

section \<open>Properties of the rate limiter\<close>

lemma min_list_py_Min:
  assumes "kept \<noteq> []"
  shows "min_list_py kept = Inr (Min (set kept))"
proof (cases kept)
  case Nil
  with assms show ?thesis by simp
next
  case (Cons t ts)
  show ?thesis
    unfolding Cons using Min.set_eq_fold [of t ts] by simp
qed

lemma wait_if_needed_at_cap:
  fixes rl :: rate_limiter and now :: rat
  defines "kept \<equiv> filter (\<lambda>t. now - 60 < t) (last_request_times rl)"
  assumes "kept \<noteq> []" "requests_per_minute rl \<le> int (length kept)"
  shows "wait_if_needed now delay rl =
           Inr ([Sleep (Min (set kept) + 60 - now), Sleep delay, Record now],
                rl\<lparr>last_request_times := kept @ [now]\<rparr>)"
    and "0 < Min (set kept) + 60 - now"
proof -
  have "Min (set kept) \<in> set kept"
    using assms(2) by (intro Min_in) simp_all
  then have "now - 60 < Min (set kept)"
    by (simp add: kept_def)
  then show pos: "0 < Min (set kept) + 60 - now"
    by simp
  have "60 - (now - Min (set kept)) = Min (set kept) + 60 - now"
    by simp
  with pos assms(2,3) show "wait_if_needed now delay rl =
           Inr ([Sleep (Min (set kept) + 60 - now), Sleep delay, Record now],
                rl\<lparr>last_request_times := kept @ [now]\<rparr>)"
    unfolding wait_if_needed_def Let_def kept_def [symmetric]
    by (simp add: min_list_py_Min kept_def [symmetric])
qed

lemma wait_if_needed_below_cap:
  fixes rl :: rate_limiter and now :: rat
  defines "kept \<equiv> filter (\<lambda>t. now - 60 < t) (last_request_times rl)"
  assumes "int (length kept) < requests_per_minute rl"
  shows "wait_if_needed now delay rl =
           Inr ([Sleep delay, Record now], rl\<lparr>last_request_times := kept @ [now]\<rparr>)"
  using assms(2) unfolding wait_if_needed_def Let_def kept_def by simp

text \<open>
  With a cap of zero or less and no timestamp left in the window, \<open>min\<close> is applied to
  the empty list and the call raises.
\<close>

lemma wait_if_needed_empty_window:
  assumes "filter (\<lambda>t. now - 60 < t) (last_request_times rl) = []" "requests_per_minute rl \<le> 0"
  shows "wait_if_needed now delay rl = Inl ValueError"
  using assms by (simp add: wait_if_needed_def Let_def)

lemma gated_calls_below_cap:
  assumes "\<forall>t \<in> set (last_request_times rl). hi - 60 < t"
    and "\<forall>c \<in> set calls. hi - 60 < fst c \<and> fst c \<le> hi"
    and "int (length (last_request_times rl) + length calls) \<le> requests_per_minute rl"
  shows "gated_calls rl calls =
           Inr (rl\<lparr>last_request_times := last_request_times rl @ map fst calls\<rparr>)"
  using assms
proof (induction calls arbitrary: rl)
  case Nil
  then show ?case by simp
next
  case (Cons c calls)
  obtain now delay where c: "c = (now, delay)" by (cases c)
  from Cons.prems(2) c have now: "hi - 60 < now" "now \<le> hi" by simp_all
  have kept: "filter (\<lambda>t. now - 60 < t) (last_request_times rl) = last_request_times rl"
    using Cons.prems(1) now by (auto simp: filter_id_conv)
  let ?rl' = "rl\<lparr>last_request_times := last_request_times rl @ [now]\<rparr>"
  have below: "int (length (filter (\<lambda>t. now - 60 < t) (last_request_times rl))) < requests_per_minute rl"
    using Cons.prems(3) by (simp add: kept)
  have step: "wait_if_needed now delay rl = Inr ([Sleep delay, Record now], ?rl')"
    using wait_if_needed_below_cap [OF below] by (simp add: kept)
  have "gated_calls ?rl' calls =
          Inr (?rl'\<lparr>last_request_times := last_request_times ?rl' @ map fst calls\<rparr>)"
  proof (rule Cons.IH)
    show "\<forall>t \<in> set (last_request_times ?rl'). hi - 60 < t"
      using Cons.prems(1) now by simp
    show "\<forall>c \<in> set calls. hi - 60 < fst c \<and> fst c \<le> hi"
      using Cons.prems(2) by simp
    show "int (length (last_request_times ?rl') + length calls) \<le> requests_per_minute ?rl'"
      using Cons.prems(3) by simp
  qed
  then show ?case by (simp add: c step)
qed

text \<open>
  Claim C8. A call of \<open>wait_if_needed\<close> keeps exactly the timestamps less than 60 seconds
  old. If at least \<open>requests_per_minute\<close> of them remain, it first sleeps for a positive
  time that ends when the oldest remaining timestamp is 60 seconds old; below the cap it
  does not block. In both cases it then sleeps the random delay and only then records
  the reading of the clock taken on entry. Hence, for a positive cap and a limiter
  without history, after \<open>cap\<close> calls entered within less than 60 seconds before the entry
  \<open>now\<close> of the next call, that next call blocks until the oldest of the recorded
  timestamps is 60 seconds old.
\<close>

theorem wait_if_needed_sliding_window:
  fixes rl :: rate_limiter and now :: rat
  defines "kept \<equiv> filter (\<lambda>t. now - 60 < t) (last_request_times rl)"
  shows "set kept = {t \<in> set (last_request_times rl). now - t < 60} \<and>
    (kept \<noteq> [] \<and> requests_per_minute rl \<le> int (length kept) \<longrightarrow>
       wait_if_needed now delay rl =
         Inr ([Sleep (Min (set kept) + 60 - now), Sleep delay, Record now],
              rl\<lparr>last_request_times := kept @ [now]\<rparr>) \<and>
       0 < Min (set kept) + 60 - now \<and>
       (now + (Min (set kept) + 60 - now)) - Min (set kept) \<ge> 60) \<and>
    (int (length kept) < requests_per_minute rl \<longrightarrow>
       wait_if_needed now delay rl =
         Inr ([Sleep delay, Record now], rl\<lparr>last_request_times := kept @ [now]\<rparr>)) \<and>
    (0 < requests_per_minute rl \<and> last_request_times rl = [] \<and>
     int (length calls) = requests_per_minute rl \<and>
     (\<forall>c \<in> set calls. now - 60 < fst c \<and> fst c \<le> now) \<longrightarrow>
       (\<exists>rl'. gated_calls rl calls = Inr rl' \<and>
              last_request_times rl' = map fst calls \<and>
              wait_if_needed now delay rl' =
                Inr ([Sleep (Min (fst ` set calls) + 60 - now), Sleep delay, Record now],
                     rl'\<lparr>last_request_times := map fst calls @ [now]\<rparr>) \<and>
              0 < Min (fst ` set calls) + 60 - now))"
proof (intro conjI impI)
  show "set kept = {t \<in> set (last_request_times rl). now - t < 60}"
    by (auto simp: kept_def)
next
  assume a: "kept \<noteq> [] \<and> requests_per_minute rl \<le> int (length kept)"
  then have ne: "filter (\<lambda>t. now - 60 < t) (last_request_times rl) \<noteq> []"
    and cap: "requests_per_minute rl \<le> int (length (filter (\<lambda>t. now - 60 < t) (last_request_times rl)))"
    by (simp_all add: kept_def)
  show "wait_if_needed now delay rl =
         Inr ([Sleep (Min (set kept) + 60 - now), Sleep delay, Record now],
              rl\<lparr>last_request_times := kept @ [now]\<rparr>)"
    unfolding kept_def by (rule wait_if_needed_at_cap(1) [OF ne cap])
  show "0 < Min (set kept) + 60 - now"
    unfolding kept_def by (rule wait_if_needed_at_cap(2) [OF ne cap])
  show "(now + (Min (set kept) + 60 - now)) - Min (set kept) \<ge> 60"
    by simp
next
  assume "int (length kept) < requests_per_minute rl"
  then show "wait_if_needed now delay rl =
         Inr ([Sleep delay, Record now], rl\<lparr>last_request_times := kept @ [now]\<rparr>)"
    unfolding kept_def by (rule wait_if_needed_below_cap)
next
  assume a: "0 < requests_per_minute rl \<and> last_request_times rl = [] \<and>
     int (length calls) = requests_per_minute rl \<and>
     (\<forall>c \<in> set calls. now - 60 < fst c \<and> fst c \<le> now)"
  let ?rl' = "rl\<lparr>last_request_times := map fst calls\<rparr>"
  have run: "gated_calls rl calls = Inr ?rl'"
    using gated_calls_below_cap [of rl now calls] a by simp
  from a have ne: "calls \<noteq> []" by auto
  have all: "filter (\<lambda>t. now - 60 < t) (map fst calls) = map fst calls"
    using a by (auto simp: filter_id_conv)
  have ne': "filter (\<lambda>t. now - 60 < t) (last_request_times ?rl') \<noteq> []"
    using ne by (simp add: all)
  have cap': "requests_per_minute ?rl' \<le> int (length (filter (\<lambda>t. now - 60 < t) (last_request_times ?rl')))"
    using a by (simp add: all)
  have blocked: "wait_if_needed now delay ?rl' =
      Inr ([Sleep (Min (fst ` set calls) + 60 - now), Sleep delay, Record now],
           ?rl'\<lparr>last_request_times := map fst calls @ [now]\<rparr>)"
    using wait_if_needed_at_cap(1) [OF ne' cap', of delay] by (simp add: all)
  have pos: "0 < Min (fst ` set calls) + 60 - now"
    using wait_if_needed_at_cap(2) [OF ne' cap'] by (simp add: all)
  from run blocked pos
  show "\<exists>rl'. gated_calls rl calls = Inr rl' \<and>
              last_request_times rl' = map fst calls \<and>
              wait_if_needed now delay rl' =
                Inr ([Sleep (Min (fst ` set calls) + 60 - now), Sleep delay, Record now],
                     rl'\<lparr>last_request_times := map fst calls @ [now]\<rparr>) \<and>
              0 < Min (fst ` set calls) + 60 - now"
    by (intro exI [of _ ?rl']) simp
qed

theorem wait_if_needed_sliding_window_witness:
  "gated_calls small_limiter [(0, 2), (5, 3)] = Inr (small_limiter\<lparr>last_request_times := [0, 5]\<rparr>) \<and>
   wait_if_needed 10 4 (small_limiter\<lparr>last_request_times := [0, 5]\<rparr>) =
     Inr ([Sleep 50, Sleep 4, Record 10], small_limiter\<lparr>last_request_times := [0, 5, 10]\<rparr>) \<and>
   wait_if_needed 65 4 (small_limiter\<lparr>last_request_times := [0, 5, 10]\<rparr>) =
     Inr ([Sleep 4, Record 65], small_limiter\<lparr>last_request_times := [10, 65]\<rparr>)"
proof -
  have run: "gated_calls small_limiter [(0, 2), (5, 3)] = Inr (small_limiter\<lparr>last_request_times := [0, 5]\<rparr>)"
    by (simp add: small_limiter_def wait_if_needed_def Let_def)
  have hyp: "0 < requests_per_minute small_limiter \<and> last_request_times small_limiter = [] \<and>
     int (length [(0::rat, 2::rat), (5, 3)]) = requests_per_minute small_limiter \<and>
     (\<forall>c \<in> set [(0::rat, 2::rat), (5, 3)]. 10 - 60 < fst c \<and> fst c \<le> 10)"
    by (simp add: small_limiter_def)
  have third: "wait_if_needed 10 4 (small_limiter\<lparr>last_request_times := [0, 5]\<rparr>) =
     Inr ([Sleep 50, Sleep 4, Record 10], small_limiter\<lparr>last_request_times := [0, 5, 10]\<rparr>)"
    using wait_if_needed_sliding_window [where now = 10 and rl = small_limiter and delay = 4 and calls = "[(0, 2), (5, 3)]"] hyp run
    by simp
  have below: "int (length (filter (\<lambda>t. 65 - 60 < t)
        (last_request_times (small_limiter\<lparr>last_request_times := [0, 5, 10]\<rparr>)))) <
      requests_per_minute (small_limiter\<lparr>last_request_times := [0, 5, 10]\<rparr>)"
    by (simp add: small_limiter_def)
  have fourth: "wait_if_needed 65 4 (small_limiter\<lparr>last_request_times := [0, 5, 10]\<rparr>) =
     Inr ([Sleep 4, Record 65], small_limiter\<lparr>last_request_times := [10, 65]\<rparr>)"
    using wait_if_needed_sliding_window [where now = 65 and rl = "small_limiter\<lparr>last_request_times := [0, 5, 10]\<rparr>" and delay = 4 and calls = "[]"] below
    by simp
  from run third fourth show ?thesis by simp
qed


end
